theory Spec2Isabelle
  imports Complex_Main "HOL-Library.Sublist"
begin

section \<open>Python primitives used by copilot.py\<close>

text \<open>
  Strings are lists of 8-bit characters: the UTF-8 bytes of the Python text. The icons of
  the status bar are therefore byte sequences, and the character classes below are those
  of Python for ASCII (a text holding a non-ASCII white space or line separator, such as
  U+00A0 or U+2028, is outside the model).
\<close>

definition isspace :: "char \<Rightarrow> bool" where
  \<comment> \<open>\<open>str.isspace\<close> on one ASCII character: TAB, LF, VT, FF, CR, FS, GS, RS, US, space.\<close>
  "isspace c \<longleftrightarrow> c \<in> set [CHR 0x09, CHR 0x0A, CHR 0x0B, CHR 0x0C, CHR 0x0D,
                          CHR 0x1C, CHR 0x1D, CHR 0x1E, CHR 0x1F, CHR 0x20]"

definition strip :: "string \<Rightarrow> string" where
  \<comment> \<open>\<open>str.strip()\<close>: white space removed at both ends.\<close>
  "strip s = rev (dropWhile isspace (rev (dropWhile isspace s)))"

definition is_linebreak :: "char \<Rightarrow> bool" where
  \<comment> \<open>the ASCII line boundaries of \<open>str.splitlines\<close>: LF, CR, VT, FF, FS, GS, RS.\<close>
  "is_linebreak c \<longleftrightarrow> c \<in> set [CHR 0x0A, CHR 0x0D, CHR 0x0B, CHR 0x0C,
                               CHR 0x1C, CHR 0x1D, CHR 0x1E]"

fun splitlines_from :: "string \<Rightarrow> string \<Rightarrow> string list" where
  \<comment> \<open>\<open>splitlines_from cur rest\<close>: \<open>cur\<close> is the line read so far, reversed. CR LF is one
      boundary; a text that ends with a boundary has no empty last line.\<close>
  "splitlines_from cur [] = (if cur = [] then [] else [rev cur])"
| "splitlines_from cur [c] =
     (if is_linebreak c then [rev cur] else [rev (c # cur)])"
| "splitlines_from cur (c # d # cs) =
     (if c = CHR 0x0D \<and> d = CHR 0x0A then rev cur # splitlines_from [] cs
      else if is_linebreak c then rev cur # splitlines_from [] (d # cs)
      else splitlines_from (c # cur) (d # cs))"

definition splitlines :: "string \<Rightarrow> string list" where
  "splitlines s = splitlines_from [] s"

definition startswith :: "string \<Rightarrow> string \<Rightarrow> bool" where
  "startswith s p \<longleftrightarrow> prefix p s"

fun contains :: "string \<Rightarrow> string \<Rightarrow> bool" where
  \<comment> \<open>\<open>contains sub s\<close> is Python's \<open>sub in s\<close>.\<close>
  "contains sub [] = (sub = [])"
| "contains sub (c # cs) = (prefix sub (c # cs) \<or> contains sub cs)"

definition partition_eq :: "string \<Rightarrow> string \<times> string" where
  \<comment> \<open>\<open>line.partition("=")\<close> on a line that holds an \<open>=\<close>: the text before the first
      \<open>=\<close> and the text after it.\<close>
  "partition_eq line =
     (takeWhile (\<lambda>c. c \<noteq> CHR ''='') line, drop 1 (dropWhile (\<lambda>c. c \<noteq> CHR ''='') line))"

definition isdigit :: "char \<Rightarrow> bool" where
  "isdigit c \<longleftrightarrow> c \<in> set ''0123456789''"

definition digit_val :: "char \<Rightarrow> nat" where
  "digit_val c = of_char c - 48"

fun int_digits :: "nat \<Rightarrow> string \<Rightarrow> nat option" where
  \<comment> \<open>the digits of an integer literal: at least one digit, single underscores allowed
      between digits only.\<close>
  "int_digits acc [] = None"
| "int_digits acc (c # cs) =
     (if \<not> isdigit c then None
      else (case cs of
              [] \<Rightarrow> Some (10 * acc + digit_val c)
            | d # ds \<Rightarrow>
                if d = CHR ''_'' then int_digits (10 * acc + digit_val c) ds
                else int_digits (10 * acc + digit_val c) cs))"

definition py_int :: "string \<Rightarrow> int option" where
  \<comment> \<open>\<open>int(value)\<close> on a string, base 10; None where Python raises ValueError. (The
      interpreter's limit on the number of digits, also a ValueError, is not modelled.)\<close>
  "py_int s =
     (case strip s of
        [] \<Rightarrow> None
      | c # cs \<Rightarrow>
          if c = CHR ''-'' then map_option (\<lambda>n. - int n) (int_digits 0 cs)
          else if c = CHR ''+'' then map_option int (int_digits 0 cs)
          else map_option int (int_digits 0 (c # cs)))"

fun str_nat :: "nat \<Rightarrow> string" where
  "str_nat n =
     (if n < 10 then [''0123456789'' ! n]
      else str_nat (n div 10) @ [''0123456789'' ! (n mod 10)])"

declare str_nat.simps [simp del]

definition str_int :: "int \<Rightarrow> string" where
  \<comment> \<open>\<open>str(n)\<close> on an int.\<close>
  "str_int n = (if n < 0 then CHR ''-'' # str_nat (nat (- n)) else str_nat (nat n))"


section \<open>Configuration\<close>

record config =
  GITHUB_TOKEN :: "string option"
  COPILOT_QUOTA :: int

definition DEFAULT_QUOTA :: int where
  "DEFAULT_QUOTA = 300"

definition process_line :: "config \<Rightarrow> string \<Rightarrow> config" where
  \<comment> \<open>the body of the loop of \<open>load_copilot_config\<close>.\<close>
  "process_line cfg raw =
     (let line = strip raw in
      if line = [] \<or> startswith line ''#'' then cfg
      else if CHR ''='' \<in> set line then
        (let key = strip (fst (partition_eq line));
             val = strip (snd (partition_eq line)) in
         if key = ''GITHUB_TOKEN'' then cfg\<lparr>GITHUB_TOKEN := Some val\<rparr>
         else if key = ''COPILOT_QUOTA'' then
           (case py_int val of
              Some n \<Rightarrow> cfg\<lparr>COPILOT_QUOTA := n\<rparr>
            | None \<Rightarrow> cfg)
         else cfg)
      else cfg)"

definition load_lines :: "string list \<Rightarrow> config" where
  "load_lines ls = foldl process_line \<lparr>GITHUB_TOKEN = None, COPILOT_QUOTA = DEFAULT_QUOTA\<rparr> ls"

definition load_copilot_config :: "string option \<Rightarrow> config" where
  \<comment> \<open>the argument is the text of the file at the configuration path, None when
      \<open>path.exists()\<close> is false.\<close>
  "load_copilot_config file =
     (case file of
        None \<Rightarrow> \<lparr>GITHUB_TOKEN = None, COPILOT_QUOTA = DEFAULT_QUOTA\<rparr>
      | Some text \<Rightarrow> load_lines (splitlines text))"

section \<open>Numbers and JSON values\<close>

text \<open>
  A Python number is an int or a float. Floats are idealised as exact rationals: sums,
  quotients and products are exact, and rounding works on the exact value. Infinities
  and NaN are outside the model.
\<close>

datatype pynum = PyInt int | PyFloat rat

fun num_val :: "pynum \<Rightarrow> rat" where
  "num_val (PyInt n) = of_int n"
| "num_val (PyFloat r) = r"

fun py_add :: "pynum \<Rightarrow> pynum \<Rightarrow> pynum" where
  \<comment> \<open>\<open>a + b\<close>: an int only when both are ints.\<close>
  "py_add (PyInt a) (PyInt b) = PyInt (a + b)"
| "py_add a b = PyFloat (num_val a + num_val b)"

definition py_round :: "rat \<Rightarrow> int" where
  \<comment> \<open>\<open>round(x)\<close> on a float: the nearest integer, a tie going to the even one.\<close>
  "py_round x =
     (let f = \<lfloor>x\<rfloor>; d = x - of_int f in
      if d < 1 / 2 then f
      else if 1 / 2 < d then f + 1
      else if even f then f else f + 1)"

fun py_round1 :: "pynum \<Rightarrow> pynum" where
  \<comment> \<open>\<open>round(x, 1)\<close>: an int is returned as it is, a float is rounded to one decimal.\<close>
  "py_round1 (PyInt n) = PyInt n"
| "py_round1 (PyFloat r) = PyFloat (of_int (py_round (r * 10)) / 10)"

fun frac_digits :: "nat \<Rightarrow> rat \<Rightarrow> string" where
  \<comment> \<open>the decimal digits of a fraction in [0, 1), at most \<open>n\<close> of them.\<close>
  "frac_digits 0 f = []"
| "frac_digits (Suc n) f =
     (if f = 0 then []
      else (''0123456789'' ! nat \<lfloor>f * 10\<rfloor>) # frac_digits n (f * 10 - of_int \<lfloor>f * 10\<rfloor>))"

definition str_float :: "rat \<Rightarrow> string" where
  \<comment> \<open>\<open>str(x)\<close> on a float that is a short decimal below 10^16, which Python prints in
      positional notation: integer part, point, and the fractional digits, at least one.\<close>
  "str_float r =
     (let a = \<bar>r\<bar>; ip = \<lfloor>a\<rfloor>; f = a - of_int ip in
      (if r < 0 then ''-'' else []) @ str_nat (nat ip) @ ''.'' @
      (if f = 0 then ''0'' else frac_digits 17 f))"

fun str_num :: "pynum \<Rightarrow> string" where
  "str_num (PyInt n) = str_int n"
| "str_num (PyFloat r) = str_float r"

definition py_trunc :: "rat \<Rightarrow> int" where
  \<comment> \<open>\<open>int(x)\<close> on a float: truncation toward zero.\<close>
  "py_trunc r = (if r < 0 then \<lceil>r\<rceil> else \<lfloor>r\<rfloor>)"

fun int_of_num :: "pynum \<Rightarrow> int" where
  "int_of_num (PyInt n) = n"
| "int_of_num (PyFloat r) = py_trunc r"

datatype json =
    JNull
  | JBool bool
  | JNum pynum
  | JStr string
  | JArr "json list"
  | JObj "(string \<times> json) list"

fun type_name :: "json \<Rightarrow> string" where
  "type_name JNull = ''NoneType''"
| "type_name (JBool b) = ''bool''"
| "type_name (JNum (PyInt n)) = ''int''"
| "type_name (JNum (PyFloat r)) = ''float''"
| "type_name (JStr s) = ''str''"
| "type_name (JArr xs) = ''list''"
| "type_name (JObj kvs) = ''dict''"

fun truthy :: "json \<Rightarrow> bool" where
  \<comment> \<open>Python's truth value of a decoded JSON value.\<close>
  "truthy JNull = False"
| "truthy (JBool b) = b"
| "truthy (JNum n) = (num_val n \<noteq> 0)"
| "truthy (JStr s) = (s \<noteq> [])"
| "truthy (JArr xs) = (xs \<noteq> [])"
| "truthy (JObj kvs) = (kvs \<noteq> [])"

datatype exn =
    RuntimeError string
  | AttributeError string
  | TypeError string
  | ValueError string
  | OtherError string

fun str_exn :: "exn \<Rightarrow> string" where
  \<comment> \<open>\<open>str(e)\<close>: the message of the exception.\<close>
  "str_exn (RuntimeError m) = m"
| "str_exn (AttributeError m) = m"
| "str_exn (TypeError m) = m"
| "str_exn (ValueError m) = m"
| "str_exn (OtherError m) = m"

definition quoted :: "string \<Rightarrow> string" where
  "quoted s = [CHR 0x27] @ s @ [CHR 0x27]"

definition no_get :: "json \<Rightarrow> exn" where
  \<comment> \<open>the AttributeError of \<open>x.get(...)\<close> on a value that is not a dict.\<close>
  "no_get x = AttributeError (quoted (type_name x) @ '' object has no attribute '' @ quoted ''get'')"

definition dict_get :: "json \<Rightarrow> string \<Rightarrow> json \<Rightarrow> exn + json" where
  \<comment> \<open>\<open>x.get(key, default)\<close>.\<close>
  "dict_get x key dflt =
     (case x of
        JObj kvs \<Rightarrow> (case map_of kvs key of Some v \<Rightarrow> Inr v | None \<Rightarrow> Inr dflt)
      | _ \<Rightarrow> Inl (no_get x))"

section \<open>The cache store and the transport\<close>

text \<open>
  \<open>get_cached_or_fetch\<close>, \<open>format_eta\<close> and \<open>format_output\<close> are imported from the
  module \<open>common\<close>. The two formatters are parameters of the model (the record
  \<open>common\<close>); the cache store is modelled from the specification.
\<close>

record centry =
  cvalue :: json
  fetched_at :: int
  ttl_seconds :: int

datatype endpoint =
    UserUrl  \<comment> \<open>\<open>{GITHUB_API_BASE}/user\<close>\<close>
  | UsageUrl json
      \<comment> \<open>\<open>{GITHUB_API_BASE}/users/{username}/settings/billing/premium_request/usage\<close>,
          kept with the value that is interpolated\<close>

datatype response =
    Body json  \<comment> \<open>a 2xx answer, decoded by \<open>json.loads\<close>\<close>
  | HTTPError int string  \<comment> \<open>\<open>urllib.error.HTTPError\<close>: code and body\<close>
  | URLError string  \<comment> \<open>\<open>urllib.error.URLError\<close>: reason\<close>
  | Raised exn  \<comment> \<open>any other exception of \<open>urlopen\<close>, \<open>read\<close> or \<open>json.loads\<close>\<close>

record world =
  cache :: "string \<rightharpoonup> centry"
  calls :: "(endpoint \<times> string) list"  \<comment> \<open>the requests sent so far: url and token\<close>

type_synonym transport = "(endpoint \<times> string) list \<Rightarrow> endpoint \<Rightarrow> string \<Rightarrow> response"

type_synonym 'a io = "world \<Rightarrow> (exn + 'a) \<times> world"

definition DEFAULT_TTL :: int where
  \<comment> \<open>Modelled from the spec: the default \<open>ttl\<close> of \<open>get_cached_or_fetch\<close>, which is
      declared in \<open>common\<close>; the usage snapshot is cached for 60 seconds.\<close>
  "DEFAULT_TTL = 60"

definition fresh :: "centry \<Rightarrow> int \<Rightarrow> bool" where
  \<comment> \<open>Modelled from the spec: \<open>fetched_at + ttl_seconds > now\<close> defines freshness.\<close>
  "fresh e now \<longleftrightarrow> now < fetched_at e + ttl_seconds e"

definition get_cached_or_fetch :: "string \<Rightarrow> json io \<Rightarrow> int \<Rightarrow> int \<Rightarrow> json io" where
  \<comment> \<open>Modelled from the spec: \<open>get_cached_or_fetch(key, producer, ttl)\<close> of \<open>common\<close>, at
      the time \<open>now\<close>. A fresh entry is returned without invoking the producer; otherwise
      the producer runs, its value is stored with the time and the ttl, and its failure
      propagates and leaves the store as it was.\<close>
  "get_cached_or_fetch key producer ttl now w =
     (case (case cache w key of
              Some e \<Rightarrow> if fresh e now then Some (cvalue e) else None
            | None \<Rightarrow> None) of
        Some v \<Rightarrow> (Inr v, w)
      | None \<Rightarrow>
          (case producer w of
             (Inl err, w') \<Rightarrow> (Inl err, w')
           | (Inr v, w') \<Rightarrow>
               (Inr v, w'\<lparr>cache := (cache w')(key \<mapsto>
                          \<lparr>cvalue = v, fetched_at = now, ttl_seconds = ttl\<rparr>)\<rparr>)))"

definition github_get :: "transport \<Rightarrow> endpoint \<Rightarrow> string \<Rightarrow> json io" where
  "github_get net url token w =
     (let w' = w\<lparr>calls := calls w @ [(url, token)]\<rparr> in
      case net (calls w) url token of
        Body j \<Rightarrow> (Inr j, w')
      | HTTPError code body \<Rightarrow>
          (Inl (RuntimeError (''HTTP '' @ str_int code @ '': '' @ body)), w')
      | URLError reason \<Rightarrow> (Inl (RuntimeError (''Network error: '' @ reason)), w')
      | Raised e \<Rightarrow> (Inl e, w'))"


section \<open>Core logic: identity and usage\<close>

definition identity_error :: exn where
  "identity_error = RuntimeError ''Could not determine GitHub username from /user endpoint''"

definition login_of :: "json \<Rightarrow> json" where
  \<comment> \<open>\<open>data.get("login") if isinstance(data, dict) else None\<close>.\<close>
  "login_of data =
     (case data of
        JObj kvs \<Rightarrow> (case map_of kvs ''login'' of Some v \<Rightarrow> v | None \<Rightarrow> JNull)
      | _ \<Rightarrow> JNull)"

definition get_github_username :: "transport \<Rightarrow> int \<Rightarrow> string \<Rightarrow> json io" where
  "get_github_username net now token w =
     (case get_cached_or_fetch ''copilot_user'' (github_get net UserUrl token) 3600 now w of
        (Inl e, w') \<Rightarrow> (Inl e, w')
      | (Inr data, w') \<Rightarrow>
          (let username = login_of data in
           if \<not> truthy username then (Inl identity_error, w')
           else (Inr username, w')))"

definition not_iterable :: "json \<Rightarrow> exn" where
  "not_iterable x = TypeError (quoted (type_name x) @ '' object is not iterable'')"

definition iter_json :: "json \<Rightarrow> exn + json list" where
  \<comment> \<open>the elements a \<open>for\<close> loop visits: of a list its items, of a dict its keys, of a
      string its characters.\<close>
  "iter_json x =
     (case x of
        JArr xs \<Rightarrow> Inr xs
      | JObj kvs \<Rightarrow> Inr (map (\<lambda>kv. JStr (fst kv)) kvs)
      | JStr s \<Rightarrow> Inr (map (\<lambda>c. JStr [c]) s)
      | _ \<Rightarrow> Inl (not_iterable x))"

definition bad_operand :: "pynum \<Rightarrow> json \<Rightarrow> exn" where
  "bad_operand acc v =
     TypeError (''unsupported operand type(s) for +: '' @ quoted (type_name (JNum acc)) @
                '' and '' @ quoted (type_name v))"

fun sum_gross :: "pynum \<Rightarrow> json list \<Rightarrow> exn + pynum" where
  \<comment> \<open>\<open>sum(item.get("grossQuantity", 0) for item in usage_items)\<close>, from the running
      total \<open>acc\<close>; a JSON boolean counts as the int 1 or 0.\<close>
  "sum_gross acc [] = Inr acc"
| "sum_gross acc (item # rest) =
     (case dict_get item ''grossQuantity'' (JNum (PyInt 0)) of
        Inl e \<Rightarrow> Inl e
      | Inr (JNum n) \<Rightarrow> sum_gross (py_add acc n) rest
      | Inr (JBool b) \<Rightarrow> sum_gross (py_add acc (PyInt (if b then 1 else 0))) rest
      | Inr v \<Rightarrow> Inl (bad_operand acc v))"

definition reduce_usage :: "json \<Rightarrow> exn + json" where
  \<comment> \<open>\<open>_fetch_copilot_usage_uncached\<close> after the request: the response is a list of
      items or a dict with \<open>usageItems\<close>.\<close>
  "reduce_usage usage_data =
     (case (case usage_data of
              JArr xs \<Rightarrow> Inr xs
            | _ \<Rightarrow> (case dict_get usage_data ''usageItems'' (JArr []) of
                       Inl e \<Rightarrow> Inl e
                     | Inr v \<Rightarrow> iter_json v)) of
        Inl e \<Rightarrow> Inl e
      | Inr usage_items \<Rightarrow>
          (case sum_gross (PyInt 0) usage_items of
             Inl e \<Rightarrow> Inl e
           | Inr used \<Rightarrow>
               Inr (JObj [(''used'', JNum (py_round1 used)), (''raw'', usage_data)])))"

definition fetch_copilot_usage_uncached :: "transport \<Rightarrow> int \<Rightarrow> string \<Rightarrow> json io" where
  "fetch_copilot_usage_uncached net now token w =
     (case get_github_username net now token w of
        (Inl e, w1) \<Rightarrow> (Inl e, w1)
      | (Inr username, w1) \<Rightarrow>
          (case github_get net (UsageUrl username) token w1 of
             (Inl e, w2) \<Rightarrow> (Inl e, w2)
           | (Inr usage_data, w2) \<Rightarrow> (reduce_usage usage_data, w2)))"

definition get_copilot_usage :: "transport \<Rightarrow> int \<Rightarrow> string \<Rightarrow> json io" where
  "get_copilot_usage net now token w =
     get_cached_or_fetch ''copilot'' (fetch_copilot_usage_uncached net now token)
       DEFAULT_TTL now w"


section \<open>Output: CLI and Waybar\<close>

record datetime =
  year :: int
  month :: int
  day :: int
  hour :: int
  minute :: int
  second :: int

definition days_in_month :: "int \<Rightarrow> int \<Rightarrow> int" where
  "days_in_month y m =
     (if m = 2 then (if y mod 4 = 0 \<and> (y mod 100 \<noteq> 0 \<or> y mod 400 = 0) then 29 else 28)
      else if m \<in> set [4, 6, 9, 11] then 30 else 31)"

definition valid_datetime :: "datetime \<Rightarrow> bool" where
  \<comment> \<open>the values a \<open>datetime\<close> object can hold (years 1 to 9999).\<close>
  "valid_datetime t \<longleftrightarrow>
     1 \<le> year t \<and> year t \<le> 9999 \<and> 1 \<le> month t \<and> month t \<le> 12 \<and>
     1 \<le> day t \<and> day t \<le> days_in_month (year t) (month t) \<and>
     0 \<le> hour t \<and> hour t < 24 \<and> 0 \<le> minute t \<and> minute t < 60 \<and>
     0 \<le> second t \<and> second t < 60"

definition mk_datetime :: "int \<Rightarrow> int \<Rightarrow> int \<Rightarrow> exn + datetime" where
  \<comment> \<open>\<open>datetime(y, m, d, tzinfo=timezone.utc)\<close>: midnight of that day, ValueError when
      the date is out of range.\<close>
  "mk_datetime y m d =
     (let t = \<lparr>year = y, month = m, day = d, hour = 0, minute = 0, second = 0\<rparr> in
      if valid_datetime t then Inr t else Inl (ValueError ''date value out of range''))"

definition zfill :: "nat \<Rightarrow> string \<Rightarrow> string" where
  "zfill n s = replicate (n - length s) CHR ''0'' @ s"

definition isoformat :: "datetime \<Rightarrow> string" where
  \<comment> \<open>\<open>isoformat()\<close> of a UTC datetime with no microseconds.\<close>
  "isoformat t =
     zfill 4 (str_int (year t)) @ ''-'' @ zfill 2 (str_int (month t)) @ ''-'' @
     zfill 2 (str_int (day t)) @ ''T'' @ zfill 2 (str_int (hour t)) @ '':'' @
     zfill 2 (str_int (minute t)) @ '':'' @ zfill 2 (str_int (second t)) @ ''+00:00''"

definition next_month_reset :: "datetime \<Rightarrow> exn + datetime" where
  \<comment> \<open>the \<open>reset\<close> of \<open>_next_month_reset_iso\<close>; the argument is
      \<open>datetime.now(timezone.utc)\<close>.\<close>
  "next_month_reset now =
     (if month now = 12 then mk_datetime (year now + 1) 1 1
      else mk_datetime (year now) (month now + 1) 1)"

definition next_month_reset_iso :: "datetime \<Rightarrow> exn + string" where
  "next_month_reset_iso now =
     (case next_month_reset now of Inl e \<Rightarrow> Inl e | Inr reset \<Rightarrow> Inr (isoformat reset))"

record common =
  format_eta :: "string \<Rightarrow> string"
  format_output :: "string \<Rightarrow> (string \<times> json) list \<Rightarrow> exn + string"

definition COPILOT_ICON :: string where
  \<comment> \<open>U+F4B8 in UTF-8.\<close>
  "COPILOT_ICON = [CHR 0xEF, CHR 0x92, CHR 0xB8]"

definition TIME_ICON :: string where
  \<comment> \<open>U+F051A in UTF-8.\<close>
  "TIME_ICON = [CHR 0xF3, CHR 0xB0, CHR 0x94, CHR 0x9A]"

definition COPILOT_COLOR :: string where
  "COPILOT_COLOR = ''#8b5cf6''"

definition print_cli :: "common \<Rightarrow> datetime \<Rightarrow> pynum \<Rightarrow> int \<Rightarrow> exn + string list" where
  \<comment> \<open>the four lines printed, or the exception raised before the first of them.\<close>
  "print_cli cm today used quota =
     (let pct = (if quota > 0 then py_round (num_val used / of_int quota * 100) else 0) in
      case next_month_reset_iso today of
        Inl e \<Rightarrow> Inl e
      | Inr reset_iso \<Rightarrow>
          (let reset_str = format_eta cm reset_iso in
           Inr [''GitHub Copilot Premium Requests'',
                replicate 40 CHR ''-'',
                ''Used : '' @ str_num used @ '' / '' @ str_int quota @
                  '' ('' @ str_int pct @ ''%)'',
                ''Reset: '' @ reset_str @ '' (next month, 1st at 00:00 UTC)'']))"

record waybar_output =
  text_markup :: string  \<comment> \<open>the key \<open>text\<close>\<close>
  tooltip :: string
  cls :: string  \<comment> \<open>the key \<open>class\<close>\<close>
  percentage :: "int option"  \<comment> \<open>None when the payload has no such key\<close>

definition used_label :: "pynum \<Rightarrow> string" where
  \<comment> \<open>\<open>used_str\<close> of \<open>print_waybar\<close>.\<close>
  "used_label used =
     (if num_val used = of_int (int_of_num used) then str_int (int_of_num used)
      else str_num used)"

definition severity_class :: "int \<Rightarrow> string" where
  \<comment> \<open>\<open>cls\<close> of \<open>print_waybar\<close>.\<close>
  "severity_class pct =
     (if pct < 50 then ''copilot-low''
      else if pct < 80 then ''copilot-mid''
      else ''copilot-high'')"

definition opt_truthy :: "string option \<Rightarrow> bool" where
  \<comment> \<open>the truth value of an optional string: neither None nor empty.\<close>
  "opt_truthy s = (case s of None \<Rightarrow> False | Some t \<Rightarrow> t \<noteq> [])"

definition print_waybar ::
  "common \<Rightarrow> datetime \<Rightarrow> pynum \<Rightarrow> int \<Rightarrow> string option \<Rightarrow> string option \<Rightarrow> exn + waybar_output"
where
  \<comment> \<open>the dict given to \<open>json.dumps\<close>, or the exception raised before.\<close>
  "print_waybar cm today used quota format_str tooltip_format =
     (let pct = min (if quota > 0 then py_round (num_val used / of_int quota * 100) else 0) 100 in
      case next_month_reset_iso today of
        Inl e \<Rightarrow> Inl e
      | Inr reset_iso \<Rightarrow>
          (let reset_str = format_eta cm reset_iso;
               icon_styled = ''<span foreground='' @ quoted COPILOT_COLOR @ '' size='' @
                             quoted ''large'' @ ''>'' @ COPILOT_ICON @ '' </span>'';
               time_icon_styled = ''<span foreground='' @ quoted COPILOT_COLOR @ '' size='' @
                                  quoted ''large'' @ ''>'' @ TIME_ICON @ ''</span>'';
               used_str = used_label used;
               data = [(''icon'', JStr icon_styled),
                       (''icon_plain'', JStr COPILOT_ICON),
                       (''time_icon'', JStr time_icon_styled),
                       (''time_icon_plain'', JStr TIME_ICON),
                       (''used'', JNum used),
                       (''used_str'', JStr used_str),
                       (''quota'', JNum (PyInt quota)),
                       (''pct'', JNum (PyInt pct)),
                       (''reset'', JStr reset_str)] in
           case (if opt_truthy format_str then format_output cm (the format_str) data
                 else Inr (icon_styled @ str_int pct @ ''% '' @ time_icon_styled @ '' '' @
                           reset_str)) of
             Inl e \<Rightarrow> Inl e
           | Inr txt \<Rightarrow>
               (case (if opt_truthy tooltip_format
                      then format_output cm (the tooltip_format) data
                      else Inr (''GitHub Copilot Premium Requests\<newline>'' @
                                concat (replicate 24 [CHR 0xE2, CHR 0x94, CHR 0x81]) @
                                ''\<newline>Used:   '' @ used_str @ '' / '' @ str_int quota @
                                '' ('' @ str_int pct @ ''%)\<newline>Reset:  '' @ reset_str @
                                '' (next month)\<newline>\<newline>Click to Refresh'')) of
                  Inl e \<Rightarrow> Inl e
                | Inr tip \<Rightarrow>
                    Inr \<lparr>text_markup = txt, tooltip = tip, cls = severity_class pct,
                         percentage = Some pct\<rparr>)))"


section \<open>CLI entry point\<close>

record args =
  waybar :: bool
  format :: "string option"
  tooltip_format :: "string option"
  config_path :: string  \<comment> \<open>\<open>args.config\<close>, as it prints\<close>

datatype printed = Stdout_json waybar_output | Stdout_line string | Stderr_line string

datatype outcome =
    Exit int "printed list"  \<comment> \<open>exit code and what was printed\<close>
  | Uncaught exn  \<comment> \<open>an exception that leaves \<open>main\<close>\<close>

definition fetch_used :: "transport \<Rightarrow> int \<Rightarrow> string \<Rightarrow> json io" where
  \<comment> \<open>the \<open>try\<close> block of \<open>main\<close>.\<close>
  "fetch_used net now token w =
     (case get_copilot_usage net now token w of
        (Inl e, w') \<Rightarrow> (Inl e, w')
      | (Inr usage, w') \<Rightarrow> (dict_get usage ''used'' (JNum (PyInt 0)), w'))"

definition short_err :: "string \<Rightarrow> string" where
  "short_err err_msg =
     (if contains ''401'' err_msg \<or> contains ''403'' err_msg then ''Auth Err'' else ''Net Err'')"

definition no_token_payload :: "string \<Rightarrow> waybar_output" where
  "no_token_payload path =
     \<lparr>text_markup = ''<span foreground='#ff5555'>'' @ COPILOT_ICON @ '' No Token</span>'',
      tooltip = ''No GITHUB_TOKEN found in '' @ path @
                ''\<newline>Create the file with:\<newline>GITHUB_TOKEN=ghp_xxxxx\<newline>COPILOT_QUOTA=300'',
      cls = ''critical'', percentage = None\<rparr>"

definition error_payload :: "exn \<Rightarrow> waybar_output" where
  "error_payload e =
     (let err_msg = str_exn e in
      \<lparr>text_markup = ''<span foreground='#ff5555'>'' @ COPILOT_ICON @ '' '' @ short_err err_msg @
              ''</span>'',
       tooltip = ''Error fetching Copilot usage:\<newline>'' @ err_msg,
       cls = ''critical'', percentage = None\<rparr>)"

definition main ::
  "common \<Rightarrow> transport \<Rightarrow> args \<Rightarrow> string option \<Rightarrow> int \<Rightarrow> datetime \<Rightarrow> world \<Rightarrow> outcome \<times> world"
where
  \<comment> \<open>\<open>main\<close> on the parsed arguments, the text of the configuration file, the clock
      (seconds for the cache, the UTC date for the reset) and the world. The printers
      take a number: a cached \<open>used\<close> that is no number stops the model with the
      TypeError of their division.\<close>
  "main cm net a file now today w =
     (let config = load_copilot_config file;
          token = GITHUB_TOKEN config;
          quota = COPILOT_QUOTA config in
      if \<not> opt_truthy token then
        (if waybar a then (Exit 0 [Stdout_json (no_token_payload (config_path a))], w)
         else (Exit 1 [Stderr_line (''[!] Error: No GITHUB_TOKEN in '' @ config_path a)], w))
      else
        (case fetch_used net now (the token) w of
           (Inl e, w') \<Rightarrow>
             (if waybar a then (Exit 0 [Stdout_json (error_payload e)], w')
              else (Exit 1 [Stderr_line (''[!] Critical Error: '' @ str_exn e)], w'))
         | (Inr (JNum used), w') \<Rightarrow>
             (if waybar a then
                (case print_waybar cm today used quota (format a) (tooltip_format a) of
                   Inl e \<Rightarrow> (Uncaught e, w')
                 | Inr out \<Rightarrow> (Exit 0 [Stdout_json out], w'))
              else
                (case print_cli cm today used quota of
                   Inl e \<Rightarrow> (Uncaught e, w')
                 | Inr ls \<Rightarrow> (Exit 0 (map Stdout_line ls), w')))
         | (Inr v, w') \<Rightarrow>
             (Uncaught (TypeError (''unsupported operand type(s) for /: '' @
                                   quoted (type_name v) @ '' and '' @ quoted ''int'')), w')))"


section \<open>The specification's terms\<close>

text \<open>
  The definitions of this section follow the words of the specification; the theorems
  compare them with the functions translated from the source.
\<close>

definition spec_percentage :: "pynum \<Rightarrow> int \<Rightarrow> int" where
  \<comment> \<open>\<open>percentage = round(used / quota * 100)\<close> if quota > 0 else 0.\<close>
  "spec_percentage used quota =
     (if 0 < quota then py_round (num_val used / of_int quota * 100) else 0)"

datatype tier = Low | Mid | High

definition spec_tier :: "int \<Rightarrow> tier" where
  \<comment> \<open>low if percentage < 50, mid if 50 \<le> percentage < 80, high if percentage \<ge> 80.\<close>
  "spec_tier p = (if p < 50 then Low else if 50 \<le> p \<and> p < 80 then Mid else High)"

fun tier_name :: "tier \<Rightarrow> string" where
  "tier_name Low = ''low''"
| "tier_name Mid = ''mid''"
| "tier_name High = ''high''"




definition assignment :: "string \<Rightarrow> (string \<times> string) option" where
  \<comment> \<open>the key and the value that a line of the configuration assigns; None for a blank
      line, a comment line and a line without \<open>=\<close>.\<close>
  "assignment raw =
     (let line = strip raw in
      if line = [] \<or> startswith line ''#'' \<or> CHR ''='' \<notin> set line then None
      else Some (strip (fst (partition_eq line)), strip (snd (partition_eq line))))"


definition token_assigned :: "string \<Rightarrow> string option" where
  \<comment> \<open>the token of a \<open>GITHUB_TOKEN\<close> assignment.\<close>
  "token_assigned raw =
     (case assignment raw of
        Some (k, v) \<Rightarrow> if k = ''GITHUB_TOKEN'' then Some v else None
      | None \<Rightarrow> None)"


definition one_decimal :: "pynum \<Rightarrow> bool" where
  \<comment> \<open>a number with at most one decimal digit, as \<open>round(x, 1)\<close> yields.\<close>
  "one_decimal used \<longleftrightarrow> num_val used * 10 = of_int \<lfloor>num_val used * 10\<rfloor>"


definition is_object :: "json \<Rightarrow> bool" where
  "is_object j = (case j of JObj kvs \<Rightarrow> True | _ \<Rightarrow> False)"

definition login_field :: "json \<Rightarrow> json option" where
  \<comment> \<open>the field \<open>login\<close> of an identity response, None when the response has none.\<close>
  "login_field j = (case j of JObj kvs \<Rightarrow> map_of kvs ''login'' | _ \<Rightarrow> None)"

definition stale :: "world \<Rightarrow> string \<Rightarrow> int \<Rightarrow> bool" where
  \<comment> \<open>no fresh entry under the key: expired entries are logically absent.\<close>
  "stale w key now = (case cache w key of None \<Rightarrow> True | Some e \<Rightarrow> \<not> fresh e now)"


section \<open>Example inputs\<close>

definition plain_common :: common where
  "plain_common = \<lparr>format_eta = (\<lambda>iso. iso), format_output = (\<lambda>fmt data. Inr fmt)\<rparr>"

definition june_2024 :: datetime where
  "june_2024 = \<lparr>year = 2024, month = 6, day = 15, hour = 12, minute = 30, second = 0\<rparr>"

definition december_2024 :: datetime where
  "december_2024 = \<lparr>year = 2024, month = 12, day = 15, hour = 12, minute = 30, second = 0\<rparr>"

definition empty_world :: world where
  "empty_world = \<lparr>cache = Map.empty, calls = []\<rparr>"

definition three_items :: "json list" where
  "three_items = [JObj [(''grossQuantity'', JNum (PyFloat 1))],
                  JObj [(''grossQuantity'', JNum (PyFloat (5 / 2)))],
                  JObj [(''grossQuantity'', JNum (PyFloat 0))]]"

definition good_net :: transport where
  \<comment> \<open>a transport that answers the identity request with the login \<open>octocat\<close> and the
      usage request with the three items.\<close>
  "good_net history url token =
     (case url of
        UserUrl \<Rightarrow> Body (JObj [(''login'', JStr ''octocat'')])
      | UsageUrl u \<Rightarrow> Body (JArr three_items))"

definition empty_login_net :: transport where
  \<comment> \<open>a transport whose identity answer has the field \<open>login\<close>, holding the empty string.\<close>
  "empty_login_net history url token = Body (JObj [(''login'', JStr [])])"

definition unauthorized_net :: transport where
  "unauthorized_net history url token = HTTPError 401 ''Bad credentials''"

definition waybar_args :: args where
  "waybar_args = \<lparr>waybar = True, format = None, tooltip_format = None,
                  config_path = ''copilot.conf''\<rparr>"

definition cli_args :: args where
  "cli_args = \<lparr>waybar = False, format = None, tooltip_format = None,
               config_path = ''copilot.conf''\<rparr>"


section \<open>Rounding\<close>





section \<open>The percentage\<close>


lemma print_waybar_percentage:
  "print_waybar cm today used quota f t = Inr out \<Longrightarrow>
   percentage out = Some (min (spec_percentage used quota) 100)"
  by (auto simp: print_waybar_def spec_percentage_def Let_def split: sum.splits if_splits)




section \<open>The severity tier and the reset instant\<close>

lemma print_waybar_cls:
  "print_waybar cm today used quota f t = Inr out \<Longrightarrow>
   cls out = severity_class (min (spec_percentage used quota) 100)"
  by (auto simp: print_waybar_def spec_percentage_def Let_def split: sum.splits if_splits)

lemma severity_class_tier: "severity_class p = ''copilot-'' @ tier_name (spec_tier p)"
  by (simp add: severity_class_def spec_tier_def)

text \<open>
  C4. The class of the structured output is \<open>copilot-low\<close> exactly when the percentage
  is below 50, \<open>copilot-mid\<close> exactly when it is at least 50 and below 80, and
  \<open>copilot-high\<close> exactly when it is at least 80: it is the name of the specification's
  tier with the prefix \<open>copilot-\<close>. So 49 is low, 50 and 79 are mid, 80 is high, and the
  class that \<open>print_waybar\<close> emits is that of the percentage it emits.
\<close>

theorem tier_boundaries:
  "(severity_class p = ''copilot-low'' \<longleftrightarrow> p < 50) \<and>
   (severity_class p = ''copilot-mid'' \<longleftrightarrow> 50 \<le> p \<and> p < 80) \<and>
   (severity_class p = ''copilot-high'' \<longleftrightarrow> 80 \<le> p) \<and>
   severity_class p = ''copilot-'' @ tier_name (spec_tier p) \<and>
   severity_class 49 = ''copilot-low'' \<and> severity_class 50 = ''copilot-mid'' \<and>
   severity_class 79 = ''copilot-mid'' \<and> severity_class 80 = ''copilot-high'' \<and>
   (print_waybar cm today used quota f t = Inr out \<longrightarrow>
      (\<exists>q. percentage out = Some q \<and> cls out = ''copilot-'' @ tier_name (spec_tier q)))"
proof -
  have a: "(severity_class p = ''copilot-low'' \<longleftrightarrow> p < 50) \<and>
   (severity_class p = ''copilot-mid'' \<longleftrightarrow> 50 \<le> p \<and> p < 80) \<and>
   (severity_class p = ''copilot-high'' \<longleftrightarrow> 80 \<le> p)"
    by (simp add: severity_class_def)
  have b: "severity_class 49 = ''copilot-low'' \<and> severity_class 50 = ''copilot-mid'' \<and>
   severity_class 79 = ''copilot-mid'' \<and> severity_class 80 = ''copilot-high''"
    by (simp add: severity_class_def)
  have c: "print_waybar cm today used quota f t = Inr out \<longrightarrow>
      (\<exists>q. percentage out = Some q \<and> cls out = ''copilot-'' @ tier_name (spec_tier q))"
    using print_waybar_cls [of cm today used quota f t out]
      print_waybar_percentage [of cm today used quota f t out]
    by (simp add: severity_class_tier)
  show ?thesis using a b c severity_class_tier [of p] by blast
qed

theorem tier_boundaries_witness:
  "\<exists>out. print_waybar plain_common june_2024 (PyFloat (7 / 2)) 300 None None = Inr out \<and>
     percentage out = Some 1 \<and> cls out = ''copilot-low''"
proof -
  obtain out where w: "print_waybar plain_common june_2024 (PyFloat (7 / 2)) 300 None None = Inr out"
    by (auto simp: print_waybar_def next_month_reset_iso_def next_month_reset_def mk_datetime_def
        valid_datetime_def days_in_month_def june_2024_def Let_def opt_truthy_def)
  have p: "spec_percentage (PyFloat (7 / 2)) 300 = 1" by code_simp
  have "percentage out = Some 1"
    using print_waybar_percentage [OF w] p by simp
  then show ?thesis
    using tier_boundaries [of 1 plain_common june_2024 "PyFloat (7 / 2)" 300 None None out] w
    by (auto simp: spec_tier_def)
qed

lemma days_in_month_pos: "1 \<le> days_in_month y m"
  by (simp add: days_in_month_def)

lemma mk_datetime_first:
  "1 \<le> y \<Longrightarrow> y \<le> 9999 \<Longrightarrow> 1 \<le> m \<Longrightarrow> m \<le> 12 \<Longrightarrow>
   mk_datetime y m 1 = Inr \<lparr>year = y, month = m, day = 1, hour = 0, minute = 0, second = 0\<rparr>"
  by (simp add: mk_datetime_def valid_datetime_def days_in_month_pos Let_def)

lemma next_month_reset_value:
  assumes "valid_datetime now" and "year now < 9999 \<or> month now < 12"
  shows "next_month_reset now =
     Inr \<lparr>year = (if month now = 12 then year now + 1 else year now),
          month = (if month now = 12 then 1 else month now + 1),
          day = 1, hour = 0, minute = 0, second = 0\<rparr>"
proof (cases "month now = 12")
  case True
  with assms have "1 \<le> year now + 1" "year now + 1 \<le> 9999"
    by (simp_all add: valid_datetime_def)
  then show ?thesis
    using True by (simp add: next_month_reset_def mk_datetime_first)
next
  case False
  with assms have "1 \<le> year now" "year now \<le> 9999" "1 \<le> month now + 1" "month now + 1 \<le> 12"
    by (simp_all add: valid_datetime_def)
  then show ?thesis
    using False by (simp add: next_month_reset_def mk_datetime_first)
qed

text \<open>
  C5. For every UTC instant that has a following month in the range of \<open>datetime\<close>
  (every instant before December 9999), the reset instant is midnight UTC on the 1st of
  the following calendar month, December rolling over to January of the next year; the
  function returns its ISO text. On 2024-12-15 that is 2025-01-01T00:00:00+00:00 and on
  2024-06-15 it is 2024-07-01T00:00:00+00:00.
\<close>

theorem reset_first_of_next_month:
  "(valid_datetime now \<and> (year now < 9999 \<or> month now < 12) \<longrightarrow>
      next_month_reset now =
        Inr \<lparr>year = (if month now = 12 then year now + 1 else year now),
             month = (if month now = 12 then 1 else month now + 1),
             day = 1, hour = 0, minute = 0, second = 0\<rparr>) \<and>
   next_month_reset_iso now =
     (case next_month_reset now of Inl e \<Rightarrow> Inl e | Inr reset \<Rightarrow> Inr (isoformat reset)) \<and>
   next_month_reset_iso december_2024 = Inr ''2025-01-01T00:00:00+00:00'' \<and>
   next_month_reset_iso june_2024 = Inr ''2024-07-01T00:00:00+00:00''"
proof -
  have d: "next_month_reset_iso december_2024 = Inr ''2025-01-01T00:00:00+00:00''"
    by code_simp
  have j: "next_month_reset_iso june_2024 = Inr ''2024-07-01T00:00:00+00:00''"
    by code_simp
  show ?thesis
    using next_month_reset_value [of now] d j
    by (simp add: next_month_reset_iso_def)
qed

theorem reset_first_of_next_month_witness:
  "valid_datetime december_2024 \<and>
   next_month_reset december_2024 =
     Inr \<lparr>year = 2025, month = 1, day = 1, hour = 0, minute = 0, second = 0\<rparr>"
proof -
  have v: "valid_datetime december_2024"
    by (simp add: valid_datetime_def december_2024_def days_in_month_def)
  show ?thesis
    using reset_first_of_next_month [of december_2024] v
    by (simp add: december_2024_def)
qed


section \<open>The usage aggregator\<close>









section \<open>Loading the configuration\<close>


lemma process_line_token:
  "GITHUB_TOKEN (process_line cfg l) =
     (case token_assigned l of Some v \<Rightarrow> Some v | None \<Rightarrow> GITHUB_TOKEN cfg)"
  by (simp add: process_line_def token_assigned_def assignment_def Let_def split: option.splits)










section \<open>The entry point: missing credential and fetch failures\<close>

lemma main_no_token:
  "\<not> opt_truthy (GITHUB_TOKEN (load_copilot_config conf)) \<Longrightarrow>
   main cm net a conf now today w =
     (if waybar a then Exit 0 [Stdout_json (no_token_payload (config_path a))]
      else Exit 1 [Stderr_line (''[!] Error: No GITHUB_TOKEN in '' @ config_path a)], w)"
  by (simp add: main_def Let_def)

lemma main_fetch_failure:
  "opt_truthy (GITHUB_TOKEN (load_copilot_config conf)) \<Longrightarrow>
   fetch_used net now (the (GITHUB_TOKEN (load_copilot_config conf))) w = (Inl e, w') \<Longrightarrow>
   main cm net a conf now today w =
     (if waybar a then Exit 0 [Stdout_json (error_payload e)]
      else Exit 1 [Stderr_line (''[!] Critical Error: '' @ str_exn e)], w')"
  by (simp add: main_def Let_def)

lemma fetch_used_failure:
  "get_copilot_usage net now token w = (Inl e, w') \<Longrightarrow> fetch_used net now token w = (Inl e, w')"
  by (simp add: fetch_used_def)

lemma payloads_differ: "no_token_payload p \<noteq> error_payload e"
proof
  assume "no_token_payload p = error_payload e"
  then have "tooltip (no_token_payload p) = tooltip (error_payload e)" by simp
  then show False by (simp add: no_token_payload_def error_payload_def Let_def)
qed

text \<open>
  C8. When the configuration holds no credential (the file is missing, no line assigns
  \<open>GITHUB_TOKEN\<close>, or the token is empty), \<open>main\<close> stops before the fetch pipeline: the
  world is returned as it was, so the transport has not been invoked and the cache is
  untouched, whatever the transport is. In plaintext mode the process exits 1 with the
  message \<open>[!] Error: No GITHUB_TOKEN in ...\<close> on stderr, in structured mode it prints
  the "No Token" payload and exits 0. Both differ from what a remote-call error prints.
\<close>

theorem missing_credential:
  "(\<not> opt_truthy (GITHUB_TOKEN (load_copilot_config conf)) \<longrightarrow>
      main cm net a conf now today w =
        (if waybar a then Exit 0 [Stdout_json (no_token_payload (config_path a))]
         else Exit 1 [Stderr_line (''[!] Error: No GITHUB_TOKEN in '' @ config_path a)], w)) \<and>
   \<not> opt_truthy (GITHUB_TOKEN (load_copilot_config None)) \<and>
   (token_assigned l = None \<longrightarrow> \<not> opt_truthy (GITHUB_TOKEN (load_lines [l]))) \<and>
   no_token_payload p \<noteq> error_payload e \<and>
   Stderr_line (''[!] Error: No GITHUB_TOKEN in '' @ p) \<noteq>
     Stderr_line (''[!] Critical Error: '' @ str_exn e)"
proof -
  have m: "\<not> opt_truthy (GITHUB_TOKEN (load_copilot_config None))"
    by (simp add: load_copilot_config_def opt_truthy_def)
  have t: "token_assigned l = None \<longrightarrow> \<not> opt_truthy (GITHUB_TOKEN (load_lines [l]))"
    by (simp add: load_lines_def process_line_token opt_truthy_def)
  show ?thesis
    using main_no_token [of conf cm net a now today w] m t payloads_differ [of p e]
    by simp
qed

theorem missing_credential_witness:
  "main plain_common good_net cli_args (Some ''COPILOT_QUOTA=300'') 0 june_2024 empty_world =
     (Exit 1 [Stderr_line ''[!] Error: No GITHUB_TOKEN in copilot.conf''], empty_world) \<and>
   main plain_common good_net waybar_args (Some ''GITHUB_TOKEN='') 0 june_2024 empty_world =
     (Exit 0 [Stdout_json (no_token_payload ''copilot.conf'')], empty_world) \<and>
   calls empty_world = []"
proof -
  have h1: "\<not> opt_truthy (GITHUB_TOKEN (load_copilot_config (Some ''COPILOT_QUOTA=300'')))"
    by code_simp
  have h2: "\<not> opt_truthy (GITHUB_TOKEN (load_copilot_config (Some ''GITHUB_TOKEN='')))"
    by code_simp
  show ?thesis
    using missing_credential [of "Some ''COPILOT_QUOTA=300''" plain_common good_net cli_args 0
        june_2024 empty_world]
      missing_credential [of "Some ''GITHUB_TOKEN=''" plain_common good_net waybar_args 0
        june_2024 empty_world]
      h1 h2
    by (simp add: cli_args_def waybar_args_def empty_world_def)
qed

lemma short_err_cases:
  "(short_err m = ''Auth Err'' \<longleftrightarrow> contains ''401'' m \<or> contains ''403'' m) \<and>
   (short_err m = ''Net Err'' \<longleftrightarrow> \<not> (contains ''401'' m \<or> contains ''403'' m))"
  by (simp add: short_err_def)

lemma contains_here: "contains sub (sub @ ys)"
proof (cases "sub @ ys")
  case Nil
  then show ?thesis by simp
next
  case (Cons c cs)
  have "prefix sub (sub @ ys)" by simp
  then show ?thesis unfolding Cons by simp
qed

lemma contains_append: "contains sub (xs @ sub @ ys)"
  by (induction xs) (simp_all add: contains_here)

lemma http_401_403_auth:
  "short_err (str_exn (RuntimeError (''HTTP '' @ str_int 401 @ '': '' @ body))) = ''Auth Err'' \<and>
   short_err (str_exn (RuntimeError (''HTTP '' @ str_int 403 @ '': '' @ body))) = ''Auth Err''"
proof -
  have a: "str_int 401 = ''401''" by code_simp
  have b: "str_int 403 = ''403''" by code_simp
  show ?thesis
    using contains_append [of "''401''" "''HTTP ''" "'': '' @ body"]
      contains_append [of "''403''" "''HTTP ''" "'': '' @ body"]
    by (simp only: str_exn.simps a b short_err_def) simp
qed

text \<open>
  C6. In structured mode, when the fetch pipeline fails with an exception \<open>e\<close> (the
  \<open>try\<close> block of \<open>main\<close>, which is \<open>get_copilot_usage\<close> and the read of \<open>used\<close>), the
  process prints the structured error payload of \<open>e\<close> and exits with code 0. The payload
  shows "Auth Err" exactly when the text of the error contains \<open>401\<close> or \<open>403\<close>, and
  "Net Err" otherwise; an HTTP 401 or 403 of the transport is of the first class, a
  timeout of the second.
\<close>

theorem structured_failure_exit_zero:
  "(waybar a \<and> opt_truthy (GITHUB_TOKEN (load_copilot_config conf)) \<and>
    fetch_used net now (the (GITHUB_TOKEN (load_copilot_config conf))) w = (Inl e, w') \<longrightarrow>
      main cm net a conf now today w = (Exit 0 [Stdout_json (error_payload e)], w')) \<and>
   (get_copilot_usage net now token w = (Inl e, w') \<longrightarrow>
      fetch_used net now token w = (Inl e, w')) \<and>
   text_markup (error_payload e) =
     ''<span foreground='#ff5555'>'' @ COPILOT_ICON @ '' '' @ short_err (str_exn e) @ ''</span>'' \<and>
   tooltip (error_payload e) = ''Error fetching Copilot usage:\<newline>'' @ str_exn e \<and>
   cls (error_payload e) = ''critical'' \<and>
   (short_err (str_exn e) = ''Auth Err'' \<longleftrightarrow>
      contains ''401'' (str_exn e) \<or> contains ''403'' (str_exn e)) \<and>
   (short_err (str_exn e) = ''Net Err'' \<longleftrightarrow>
      \<not> (contains ''401'' (str_exn e) \<or> contains ''403'' (str_exn e))) \<and>
   short_err (str_exn (RuntimeError (''HTTP '' @ str_int 401 @ '': '' @ body))) = ''Auth Err'' \<and>
   short_err (str_exn (RuntimeError (''HTTP '' @ str_int 403 @ '': '' @ body))) = ''Auth Err'' \<and>
   short_err (str_exn (RuntimeError (''Network error: timed out''))) = ''Net Err''"
proof -
  have n: "short_err (str_exn (RuntimeError (''Network error: timed out''))) = ''Net Err''"
    by code_simp
  have p: "text_markup (error_payload e) =
     ''<span foreground='#ff5555'>'' @ COPILOT_ICON @ '' '' @ short_err (str_exn e) @ ''</span>'' \<and>
   tooltip (error_payload e) = ''Error fetching Copilot usage:\<newline>'' @ str_exn e \<and>
   cls (error_payload e) = ''critical''"
    by (simp add: error_payload_def Let_def)
  show ?thesis
    using main_fetch_failure [of conf net now w e w' cm a today]
      fetch_used_failure [of net now token w e w'] p short_err_cases [of "str_exn e"]
      http_401_403_auth [of body] n
    by simp
qed

theorem structured_failure_exit_zero_witness:
  "waybar waybar_args \<and>
   opt_truthy (GITHUB_TOKEN (load_copilot_config (Some ''GITHUB_TOKEN=ghp_a''))) \<and>
   main plain_common unauthorized_net waybar_args (Some ''GITHUB_TOKEN=ghp_a'') 0 june_2024
       empty_world =
     (Exit 0 [Stdout_json (error_payload (RuntimeError ''HTTP 401: Bad credentials''))],
      \<lparr>cache = Map.empty, calls = [(UserUrl, ''ghp_a'')]\<rparr>) \<and>
   short_err (str_exn (RuntimeError ''HTTP 401: Bad credentials'')) = ''Auth Err''"
proof -
  have c: "load_copilot_config (Some ''GITHUB_TOKEN=ghp_a'') =
      \<lparr>GITHUB_TOKEN = Some ''ghp_a'', COPILOT_QUOTA = 300\<rparr>"
    by code_simp
  have s: "str_int 401 = ''401''" by code_simp
  have g: "get_copilot_usage unauthorized_net 0 ''ghp_a'' empty_world =
      (Inl (RuntimeError ''HTTP 401: Bad credentials''),
       \<lparr>cache = Map.empty, calls = [(UserUrl, ''ghp_a'')]\<rparr>)"
    by (simp add: get_copilot_usage_def get_cached_or_fetch_def fetch_copilot_usage_uncached_def
        get_github_username_def github_get_def unauthorized_net_def empty_world_def Let_def s)
  have a: "short_err (str_exn (RuntimeError ''HTTP 401: Bad credentials'')) = ''Auth Err''"
    by code_simp
  show ?thesis
    using structured_failure_exit_zero [of waybar_args "Some ''GITHUB_TOKEN=ghp_a''"
        unauthorized_net 0 empty_world "RuntimeError ''HTTP 401: Bad credentials''"
        "\<lparr>cache = Map.empty, calls = [(UserUrl, ''ghp_a'')]\<rparr>" plain_common june_2024 "''ghp_a''"]
      c g a
    by (simp add: waybar_args_def opt_truthy_def)
qed


section \<open>The identity resolver\<close>

lemma gcf_hit:
  "cache w key = Some e \<Longrightarrow> fresh e now \<Longrightarrow>
   get_cached_or_fetch key p ttl now w = (Inr (cvalue e), w)"
  by (simp add: get_cached_or_fetch_def)

lemma gcf_miss:
  "stale w key now \<Longrightarrow>
   get_cached_or_fetch key p ttl now w =
     (case p w of
        (Inl err, w') \<Rightarrow> (Inl err, w')
      | (Inr v, w') \<Rightarrow>
          (Inr v, w'\<lparr>cache := (cache w')(key \<mapsto>
                     \<lparr>cvalue = v, fetched_at = now, ttl_seconds = ttl\<rparr>)\<rparr>))"
  by (auto simp: get_cached_or_fetch_def stale_def split: option.splits)

lemma github_get_world:
  "snd (github_get net url token w) = w\<lparr>calls := calls w @ [(url, token)]\<rparr>"
  by (simp add: github_get_def Let_def split: response.splits)

lemma username_hit:
  "cache w ''copilot_user'' = Some e \<Longrightarrow> fresh e now \<Longrightarrow>
   get_github_username net now token w =
     (if truthy (login_of (cvalue e)) then Inr (login_of (cvalue e)) else Inl identity_error, w)"
  by (simp add: get_github_username_def gcf_hit Let_def)

lemma username_miss:
  assumes "stale w ''copilot_user'' now"
  shows "get_github_username net now token w =
     (case fst (github_get net UserUrl token w) of
        Inl e \<Rightarrow> (Inl e, w\<lparr>calls := calls w @ [(UserUrl, token)]\<rparr>)
      | Inr data \<Rightarrow>
          (if truthy (login_of data) then Inr (login_of data) else Inl identity_error,
           w\<lparr>calls := calls w @ [(UserUrl, token)],
             cache := (cache w)(''copilot_user'' \<mapsto>
                        \<lparr>cvalue = data, fetched_at = now, ttl_seconds = 3600\<rparr>)\<rparr>))"
proof -
  obtain r w' where g: "github_get net UserUrl token w = (r, w')"
    by (cases "github_get net UserUrl token w")
  then have w': "w' = w\<lparr>calls := calls w @ [(UserUrl, token)]\<rparr>"
    using github_get_world [of net UserUrl token w] by simp
  show ?thesis
    using assms g w'
    by (cases r) (simp_all add: get_github_username_def gcf_miss Let_def)
qed

lemma username_calls:
  "calls (snd (get_github_username net now token w)) = calls w \<or>
   calls (snd (get_github_username net now token w)) = calls w @ [(UserUrl, token)]"
proof (cases "stale w ''copilot_user'' now")
  case True
  then show ?thesis
    by (simp add: username_miss split: sum.splits)
next
  case False
  then obtain e where "cache w ''copilot_user'' = Some e" "fresh e now"
    by (auto simp: stale_def split: option.splits)
  then show ?thesis by (simp add: username_hit)
qed


lemma login_of_falsy:
  "\<not> truthy (login_of data) \<longleftrightarrow>
     \<not> is_object data \<or> login_field data = None \<or>
     (case login_field data of Some v \<Rightarrow> \<not> truthy v | None \<Rightarrow> False)"
  by (cases data) (auto simp: login_of_def is_object_def login_field_def split: option.splits)

lemma username_of_data:
  assumes "get_cached_or_fetch ''copilot_user'' (github_get net UserUrl token) 3600 now w =
             (Inr data, w')"
  shows "get_github_username net now token w =
           (if truthy (login_of data) then Inr (login_of data) else Inl identity_error, w')"
  using assms by (simp add: get_github_username_def Let_def)

lemma fetch_uncached_identity_failure:
  assumes "fst (get_github_username net now token w) = Inl e"
  shows "fetch_copilot_usage_uncached net now token w =
           (Inl e, snd (get_github_username net now token w))"
  using assms
  by (cases "get_github_username net now token w")
    (simp add: fetch_copilot_usage_uncached_def)

text \<open>
  C7, as stated, fails: an identity response that is an object and has the field
  \<open>login\<close>, holding the empty string, makes identity resolution fail with the identity
  error, although the response is an object and the field is not absent.
\<close>

theorem empty_login_rejected:
  "empty_login_net [] UserUrl ''ghp_a'' = Body (JObj [(''login'', JStr [])]) \<and>
   is_object (JObj [(''login'', JStr [])]) \<and>
   login_field (JObj [(''login'', JStr [])]) = Some (JStr []) \<and>
   fst (get_github_username empty_login_net 0 ''ghp_a'' empty_world) = Inl identity_error"
  by (simp add: empty_login_net_def is_object_def login_field_def get_github_username_def
      get_cached_or_fetch_def github_get_def empty_world_def login_of_def Let_def)

text \<open>
  C7, amended. When the identity lookup (cached or fetched) yields a response, identity
  resolution fails with the identity error exactly when the response is not an object,
  or its \<open>login\<close> field is absent, or the field holds a value that Python counts as
  false (null, the empty string, 0, false, an empty list or object); otherwise it
  returns the value of the field. When identity resolution fails, with this or with a
  transport error, \<open>_fetch_copilot_usage_uncached\<close> fails with the same error, returns
  no identifier, and sends no request to the usage endpoint: the only request it may
  have sent is the one to the identity endpoint.
\<close>

theorem identity_failure:
  "(get_cached_or_fetch ''copilot_user'' (github_get net UserUrl token) 3600 now w =
      (Inr data, w') \<longrightarrow>
      (fst (get_github_username net now token w) = Inl identity_error \<longleftrightarrow>
         \<not> is_object data \<or> login_field data = None \<or>
         (case login_field data of Some v \<Rightarrow> \<not> truthy v | None \<Rightarrow> False)) \<and>
      (fst (get_github_username net now token w) \<noteq> Inl identity_error \<longrightarrow>
         get_github_username net now token w = (Inr (the (login_field data)), w'))) \<and>
   (fst (get_github_username net now token w) = Inl e \<longrightarrow>
      fetch_copilot_usage_uncached net now token w =
        (Inl e, snd (get_github_username net now token w)) \<and>
      (calls (snd (fetch_copilot_usage_uncached net now token w)) = calls w \<or>
       calls (snd (fetch_copilot_usage_uncached net now token w)) =
         calls w @ [(UserUrl, token)]))"
proof -
  have a: "get_cached_or_fetch ''copilot_user'' (github_get net UserUrl token) 3600 now w =
      (Inr data, w') \<Longrightarrow>
      (fst (get_github_username net now token w) = Inl identity_error \<longleftrightarrow>
         \<not> is_object data \<or> login_field data = None \<or>
         (case login_field data of Some v \<Rightarrow> \<not> truthy v | None \<Rightarrow> False))"
  proof -
    assume g: "get_cached_or_fetch ''copilot_user'' (github_get net UserUrl token) 3600 now w =
      (Inr data, w')"
    have "fst (get_github_username net now token w) = Inl identity_error \<longleftrightarrow>
        \<not> truthy (login_of data)"
      by (simp add: username_of_data [OF g])
    then show ?thesis by (simp only: login_of_falsy)
  qed
  have b: "get_cached_or_fetch ''copilot_user'' (github_get net UserUrl token) 3600 now w =
      (Inr data, w') \<Longrightarrow>
      fst (get_github_username net now token w) \<noteq> Inl identity_error \<Longrightarrow>
         get_github_username net now token w = (Inr (the (login_field data)), w')"
    by (cases data)
      (auto simp: username_of_data login_of_def login_field_def split: if_splits option.splits)
  have c: "fst (get_github_username net now token w) = Inl e \<Longrightarrow>
      fetch_copilot_usage_uncached net now token w =
        (Inl e, snd (get_github_username net now token w))"
    by (rule fetch_uncached_identity_failure)
  have d: "fst (get_github_username net now token w) = Inl e \<Longrightarrow>
      calls (snd (fetch_copilot_usage_uncached net now token w)) = calls w \<or>
       calls (snd (fetch_copilot_usage_uncached net now token w)) =
         calls w @ [(UserUrl, token)]"
    using username_calls [of net now token w] by (simp add: c)
  show ?thesis using a b c d by blast
qed

theorem identity_failure_witness:
  "fst (get_github_username empty_login_net 0 ''ghp_a'' empty_world) = Inl identity_error \<and>
   fetch_copilot_usage_uncached empty_login_net 0 ''ghp_a'' empty_world =
     (Inl identity_error,
      \<lparr>cache = [''copilot_user'' \<mapsto>
                 \<lparr>cvalue = JObj [(''login'', JStr [])], fetched_at = 0, ttl_seconds = 3600\<rparr>],
       calls = [(UserUrl, ''ghp_a'')]\<rparr>) \<and>
   get_github_username good_net 0 ''ghp_a'' empty_world =
     (Inr (JStr ''octocat''),
      \<lparr>cache = [''copilot_user'' \<mapsto>
                 \<lparr>cvalue = JObj [(''login'', JStr ''octocat'')], fetched_at = 0,
                  ttl_seconds = 3600\<rparr>],
       calls = [(UserUrl, ''ghp_a'')]\<rparr>)"
proof -
  define wb where "wb =
      \<lparr>cache = [''copilot_user'' \<mapsto>
                 \<lparr>cvalue = JObj [(''login'', JStr [])], fetched_at = 0, ttl_seconds = 3600\<rparr>],
       calls = [(UserUrl, ''ghp_a'')]\<rparr>"
  define wg where "wg =
      \<lparr>cache = [''copilot_user'' \<mapsto>
                 \<lparr>cvalue = JObj [(''login'', JStr ''octocat'')], fetched_at = 0,
                  ttl_seconds = 3600\<rparr>],
       calls = [(UserUrl, ''ghp_a'')]\<rparr>"
  have gb: "get_cached_or_fetch ''copilot_user'' (github_get empty_login_net UserUrl ''ghp_a'')
       3600 0 empty_world = (Inr (JObj [(''login'', JStr [])]), wb)"
    by (simp add: get_cached_or_fetch_def github_get_def empty_login_net_def empty_world_def
        Let_def wb_def)
  have gg: "get_cached_or_fetch ''copilot_user'' (github_get good_net UserUrl ''ghp_a'')
       3600 0 empty_world = (Inr (JObj [(''login'', JStr ''octocat'')]), wg)"
    by (simp add: get_cached_or_fetch_def github_get_def good_net_def empty_world_def
        Let_def wg_def)
  have fb: "\<not> truthy (JStr [])" by simp
  have lb: "login_field (JObj [(''login'', JStr [])]) = Some (JStr [])"
    by (simp add: login_field_def)
  have lg: "login_field (JObj [(''login'', JStr ''octocat'')]) = Some (JStr ''octocat'')"
    by (simp add: login_field_def)
  have og: "is_object (JObj [(''login'', JStr ''octocat'')])"
    by (simp add: is_object_def)
  have sb: "snd (get_github_username empty_login_net 0 ''ghp_a'' empty_world) = wb"
    using gb by (simp add: get_github_username_def Let_def)
  from identity_failure [of empty_login_net "''ghp_a''" 0 empty_world
      "JObj [(''login'', JStr [])]" wb identity_error] gb lb fb
  have bad: "fst (get_github_username empty_login_net 0 ''ghp_a'' empty_world) = Inl identity_error"
    by simp
  from identity_failure [of empty_login_net "''ghp_a''" 0 empty_world
      "JObj [(''login'', JStr [])]" wb identity_error] bad sb
  have fetch: "fetch_copilot_usage_uncached empty_login_net 0 ''ghp_a'' empty_world =
      (Inl identity_error, wb)"
    by simp
  from identity_failure [of good_net "''ghp_a''" 0 empty_world
      "JObj [(''login'', JStr ''octocat'')]" wg identity_error] gg lg og
  have good: "get_github_username good_net 0 ''ghp_a'' empty_world = (Inr (JStr ''octocat''), wg)"
    by simp
  show ?thesis using bad fetch good by (simp add: wb_def wg_def)
qed


section \<open>The cache: two keys, two lifetimes\<close>

lemma first_run_world:
  assumes s1: "stale w0 ''copilot'' t0" and s2: "stale w0 ''copilot_user'' t0"
    and run: "get_copilot_usage net t0 token w0 = (Inr v, w1)"
  shows "\<exists>data. truthy (login_of data) \<and>
     w1 = \<lparr>cache = (cache w0)
             (''copilot_user'' \<mapsto> \<lparr>cvalue = data, fetched_at = t0, ttl_seconds = 3600\<rparr>,
              ''copilot'' \<mapsto> \<lparr>cvalue = v, fetched_at = t0, ttl_seconds = 60\<rparr>),
           calls = calls w0 @ [(UserUrl, token), (UsageUrl (login_of data), token)]\<rparr>"
proof -
  obtain r w' where p: "fetch_copilot_usage_uncached net t0 token w0 = (r, w')"
    by (cases "fetch_copilot_usage_uncached net t0 token w0")
  from run s1 p have r: "r = Inr v"
    and w1: "w1 = w'\<lparr>cache := (cache w')(''copilot'' \<mapsto>
                     \<lparr>cvalue = v, fetched_at = t0, ttl_seconds = 60\<rparr>)\<rparr>"
    by (cases r; simp add: get_copilot_usage_def gcf_miss DEFAULT_TTL_def)+
  obtain ru wu where u: "get_github_username net t0 token w0 = (ru, wu)"
    by (cases "get_github_username net t0 token w0")
  from p r u obtain un where ru: "ru = Inr un"
    by (cases ru) (simp_all add: fetch_copilot_usage_uncached_def)
  from u ru s2 obtain data where d: "fst (github_get net UserUrl token w0) = Inr data"
    and t: "truthy (login_of data)" and un: "un = login_of data"
    and wu: "wu = w0\<lparr>calls := calls w0 @ [(UserUrl, token)],
                   cache := (cache w0)(''copilot_user'' \<mapsto>
                      \<lparr>cvalue = data, fetched_at = t0, ttl_seconds = 3600\<rparr>)\<rparr>"
    by (cases "fst (github_get net UserUrl token w0)")
      (auto simp: username_miss split: if_splits)
  from p u ru have "w' = snd (github_get net (UsageUrl un) token wu)"
    by (cases "github_get net (UsageUrl un) token wu"; cases "fst (github_get net (UsageUrl un) token wu)")
      (auto simp: fetch_copilot_usage_uncached_def)
  then have w': "w' = wu\<lparr>calls := calls wu @ [(UsageUrl un, token)]\<rparr>"
    by (simp add: github_get_world)
  show ?thesis
    using t w1 w' wu un by (intro exI [of _ data]) (simp add: fun_upd_twist)
qed


lemma usage_miss_calls:
  "stale w ''copilot'' now \<Longrightarrow>
   calls (snd (get_copilot_usage net now token w)) =
     calls (snd (fetch_copilot_usage_uncached net now token w))"
  by (cases "fetch_copilot_usage_uncached net now token w";
      cases "fst (fetch_copilot_usage_uncached net now token w)")
    (simp_all add: get_copilot_usage_def gcf_miss)

lemma fetch_uncached_calls_ok:
  "get_github_username net now token w = (Inr u, wu) \<Longrightarrow>
   calls (snd (fetch_copilot_usage_uncached net now token w)) =
     calls wu @ [(UsageUrl u, token)]"
  using github_get_world [of net "UsageUrl u" token wu]
  by (cases "github_get net (UsageUrl u) token wu";
      cases "fst (github_get net (UsageUrl u) token wu)")
    (simp_all add: fetch_copilot_usage_uncached_def)

lemma fetch_uncached_calls_prefix:
  "prefix (calls (snd (get_github_username net now token w)))
     (calls (snd (fetch_copilot_usage_uncached net now token w)))"
proof (cases "get_github_username net now token w")
  case (Pair r wu)
  show ?thesis
  proof (cases r)
    case (Inl e)
    with Pair show ?thesis by (simp add: fetch_copilot_usage_uncached_def)
  next
    case (Inr u)
    with Pair show ?thesis by (simp add: fetch_uncached_calls_ok)
  qed
qed

lemma username_miss_calls:
  "stale w ''copilot_user'' now \<Longrightarrow>
   calls (snd (get_github_username net now token w)) = calls w @ [(UserUrl, token)]"
  by (simp add: username_miss split: sum.splits)

text \<open>
  C3. The identity and the usage snapshot are cached under two keys, \<open>copilot_user\<close>
  with a TTL of 3600 seconds and \<open>copilot\<close> with a TTL of 60 seconds. After a
  successful run of the fetch pipeline at time \<open>t0\<close> from a store with no fresh entry
  under either key, each producer has been called exactly once (one identity request,
  one usage request) and both entries are stored with time \<open>t0\<close>. A second run before
  \<open>t0 + 60\<close> returns the same snapshot and calls no producer, whatever the transport; a
  run from \<open>t0 + 60\<close> on calls the usage producer again, and the identity producer not
  before \<open>t0 + 3600\<close>; identity resolution before \<open>t0 + 3600\<close> returns the cached
  identifier with no request, and from \<open>t0 + 3600\<close> on it sends the identity request
  again.
\<close>

theorem cache_idempotence:
  assumes "stale w0 ''copilot'' t0" and "stale w0 ''copilot_user'' t0"
    and "get_copilot_usage net t0 token w0 = (Inr v, w1)"
  shows "\<exists>data u.
     calls w1 = calls w0 @ [(UserUrl, token), (UsageUrl u, token)] \<and>
     cache w1 ''copilot_user'' = Some \<lparr>cvalue = data, fetched_at = t0, ttl_seconds = 3600\<rparr> \<and>
     cache w1 ''copilot'' = Some \<lparr>cvalue = v, fetched_at = t0, ttl_seconds = 60\<rparr> \<and>
     (\<forall>net' t1. t1 < t0 + 60 \<longrightarrow> get_copilot_usage net' t1 token w1 = (Inr v, w1)) \<and>
     (\<forall>net' t1. t0 + 60 \<le> t1 \<and> t1 < t0 + 3600 \<longrightarrow>
        calls (snd (get_copilot_usage net' t1 token w1)) = calls w1 @ [(UsageUrl u, token)]) \<and>
     (\<forall>net' t1. t1 < t0 + 3600 \<longrightarrow> get_github_username net' t1 token w1 = (Inr u, w1)) \<and>
     (\<forall>net' t1. t0 + 3600 \<le> t1 \<longrightarrow>
        calls (snd (get_github_username net' t1 token w1)) = calls w1 @ [(UserUrl, token)] \<and>
        prefix (calls w1 @ [(UserUrl, token)])
          (calls (snd (get_copilot_usage net' t1 token w1))))"
proof -
  from first_run_world [OF assms] obtain data where t: "truthy (login_of data)"
    and w1: "w1 = \<lparr>cache = (cache w0)
             (''copilot_user'' \<mapsto> \<lparr>cvalue = data, fetched_at = t0, ttl_seconds = 3600\<rparr>,
              ''copilot'' \<mapsto> \<lparr>cvalue = v, fetched_at = t0, ttl_seconds = 60\<rparr>),
           calls = calls w0 @ [(UserUrl, token), (UsageUrl (login_of data), token)]\<rparr>"
    by blast
  let ?u = "login_of data"
  have c1: "calls w1 = calls w0 @ [(UserUrl, token), (UsageUrl ?u, token)]"
    by (simp add: w1)
  have e1: "cache w1 ''copilot_user'' =
      Some \<lparr>cvalue = data, fetched_at = t0, ttl_seconds = 3600\<rparr>"
    by (simp add: w1)
  have e2: "cache w1 ''copilot'' = Some \<lparr>cvalue = v, fetched_at = t0, ttl_seconds = 60\<rparr>"
    by (simp add: w1)
  have A: "get_copilot_usage net' t1 token w1 = (Inr v, w1)" if "t1 < t0 + 60" for net' t1
    using that gcf_hit [OF e2, of t1] by (simp add: get_copilot_usage_def fresh_def)
  have B: "get_github_username net' t1 token w1 = (Inr ?u, w1)" if "t1 < t0 + 3600" for net' t1
    using that t username_hit [OF e1, of t1 net' token] by (simp add: fresh_def)
  have C: "calls (snd (get_copilot_usage net' t1 token w1)) = calls w1 @ [(UsageUrl ?u, token)]"
    if "t0 + 60 \<le> t1 \<and> t1 < t0 + 3600" for net' t1
  proof -
    from that have st: "stale w1 ''copilot'' t1"
      by (simp add: stale_def e2 fresh_def)
    from that have "get_github_username net' t1 token w1 = (Inr ?u, w1)"
      by (simp add: B)
    then show ?thesis
      by (simp add: usage_miss_calls [OF st] fetch_uncached_calls_ok)
  qed
  have D: "calls (snd (get_github_username net' t1 token w1)) = calls w1 @ [(UserUrl, token)] \<and>
        prefix (calls w1 @ [(UserUrl, token)])
          (calls (snd (get_copilot_usage net' t1 token w1)))"
    if "t0 + 3600 \<le> t1" for net' t1
  proof -
    from that have su: "stale w1 ''copilot_user'' t1"
      by (simp add: stale_def e1 fresh_def)
    from that have sc: "stale w1 ''copilot'' t1"
      by (simp add: stale_def e2 fresh_def)
    have d1: "calls (snd (get_github_username net' t1 token w1)) = calls w1 @ [(UserUrl, token)]"
      by (rule username_miss_calls [OF su])
    show ?thesis
      using fetch_uncached_calls_prefix [of net' t1 token w1]
      by (simp only: d1 usage_miss_calls [OF sc])
  qed
  show ?thesis
    using c1 e1 e2 A B C D by blast
qed

theorem cache_idempotence_witness:
  "stale empty_world ''copilot'' 0 \<and> stale empty_world ''copilot_user'' 0 \<and>
   (\<exists>v w1. get_copilot_usage good_net 0 ''ghp_a'' empty_world = (Inr v, w1) \<and>
      length (calls w1) = 2 \<and>
      get_copilot_usage good_net 59 ''ghp_a'' w1 = (Inr v, w1) \<and>
      length (calls (snd (get_copilot_usage good_net 60 ''ghp_a'' w1))) = 3 \<and>
      length (calls (snd (get_github_username good_net 3600 ''ghp_a'' w1))) = 3)"
proof -
  have s1: "stale empty_world ''copilot'' 0" and s2: "stale empty_world ''copilot_user'' 0"
    by (simp_all add: stale_def empty_world_def)
  have r: "reduce_usage (JArr three_items) =
     Inr (JObj [(''used'', JNum (PyFloat (7 / 2))), (''raw'', JArr three_items)])"
    by code_simp
  obtain v w1 where run: "get_copilot_usage good_net 0 ''ghp_a'' empty_world = (Inr v, w1)"
    by (simp add: get_copilot_usage_def get_cached_or_fetch_def fetch_copilot_usage_uncached_def
        get_github_username_def github_get_def good_net_def empty_world_def login_of_def
        Let_def r)
  from cache_idempotence [OF s1 s2 run] obtain data u where
    c: "calls w1 = calls empty_world @ [(UserUrl, ''ghp_a''), (UsageUrl u, ''ghp_a'')]"
    and A: "\<forall>net' t1. t1 < 0 + 60 \<longrightarrow> get_copilot_usage net' t1 ''ghp_a'' w1 = (Inr v, w1)"
    and C: "\<forall>net' t1. 0 + 60 \<le> t1 \<and> t1 < 0 + 3600 \<longrightarrow>
        calls (snd (get_copilot_usage net' t1 ''ghp_a'' w1)) = calls w1 @ [(UsageUrl u, ''ghp_a'')]"
    and D: "\<forall>net' t1. 0 + 3600 \<le> t1 \<longrightarrow>
        calls (snd (get_github_username net' t1 ''ghp_a'' w1)) = calls w1 @ [(UserUrl, ''ghp_a'')] \<and>
        prefix (calls w1 @ [(UserUrl, ''ghp_a'')])
          (calls (snd (get_copilot_usage net' t1 ''ghp_a'' w1)))"
    by blast
  have l: "length (calls w1) = 2" by (simp add: c empty_world_def)
  have a: "get_copilot_usage good_net 59 ''ghp_a'' w1 = (Inr v, w1)"
    using A by simp
  have c3: "length (calls (snd (get_copilot_usage good_net 60 ''ghp_a'' w1))) = 3"
    using C [rule_format, of 60 good_net] l by simp
  have d3: "length (calls (snd (get_github_username good_net 3600 ''ghp_a'' w1))) = 3"
    using D [rule_format, of 3600 good_net] l by simp
  show ?thesis using s1 s2 run l a c3 d3 by blast
qed


section \<open>The used label\<close>

lemma digit_in_digits: "d < 10 \<Longrightarrow> ''0123456789'' ! d \<in> set ''0123456789''"
  by (rule nth_mem) simp

lemma str_nat_digits: "set (str_nat n) \<subseteq> set ''0123456789''"
proof (induction n rule: str_nat.induct)
  case (1 n)
  show ?case
  proof (cases "n < 10")
    case True
    then show ?thesis
      using digit_in_digits [of n] by (subst str_nat.simps) simp
  next
    case False
    have "n mod 10 < 10" by simp
    then have "''0123456789'' ! (n mod 10) \<in> set ''0123456789''"
      by (rule digit_in_digits)
    then show ?thesis
      using False 1 by (subst str_nat.simps) simp
  qed
qed

lemma str_nat_no_point: "CHR ''.'' \<notin> set (str_nat n)"
  using str_nat_digits [of n] by auto

lemma frac_digits_zero: "frac_digits n 0 = []"
  by (cases n) simp_all

lemma frac_digits_tenth:
  assumes "f * 10 = of_int d" and "f \<noteq> 0"
  shows "frac_digits 17 f = [''0123456789'' ! nat d]"
proof -
  have "frac_digits (Suc 16) f =
      (''0123456789'' ! nat \<lfloor>f * 10\<rfloor>) # frac_digits 16 (f * 10 - of_int \<lfloor>f * 10\<rfloor>)"
    using assms(2) by (simp only: frac_digits.simps if_False)
  moreover have "\<lfloor>f * 10\<rfloor> = d" by (simp add: assms(1))
  moreover have "f * 10 - of_int d = 0" by (simp add: assms(1))
  ultimately show ?thesis by (simp add: frac_digits_zero)
qed

lemma one_decimal_round1: "one_decimal (py_round1 x)"
  by (cases x) (simp_all add: one_decimal_def)

lemma used_label_integral:
  assumes "0 \<le> num_val used" and "num_val used = of_int \<lfloor>num_val used\<rfloor>"
  shows "used_label used = str_nat (nat \<lfloor>num_val used\<rfloor>)"
proof (cases used)
  case (PyInt n)
  with assms show ?thesis by (simp add: used_label_def str_int_def)
next
  case (PyFloat r)
  with assms have "0 \<le> r" "r = of_int \<lfloor>r\<rfloor>" by simp_all
  then have "0 \<le> \<lfloor>r\<rfloor>" by simp
  with PyFloat \<open>0 \<le> r\<close> \<open>r = of_int \<lfloor>r\<rfloor>\<close> show ?thesis
    by (simp add: used_label_def py_trunc_def str_int_def)
qed

lemma used_label_fractional:
  assumes nn: "0 \<le> num_val used" and od: "one_decimal used"
    and fr: "num_val used \<noteq> of_int \<lfloor>num_val used\<rfloor>"
  shows "used_label used =
     str_nat (nat \<lfloor>num_val used\<rfloor>) @ ''.'' @
     [''0123456789'' ! nat (\<lfloor>num_val used * 10\<rfloor> mod 10)]"
proof (cases used)
  case (PyInt n)
  with fr show ?thesis by simp
next
  case (PyFloat r)
  from PyFloat nn have r0: "0 \<le> r" by simp
  from PyFloat fr have rf: "r \<noteq> of_int \<lfloor>r\<rfloor>" by simp
  define k where "k = \<lfloor>r * 10\<rfloor>"
  from PyFloat od have k: "r * 10 = of_int k" by (simp add: one_decimal_def k_def)
  define f where "f = r - of_int \<lfloor>r\<rfloor>"
  have f0: "0 \<le> f" and f1: "f < 1" by (simp_all add: f_def) linarith
  have fne: "f \<noteq> 0" using rf by (simp add: f_def)
  have f10: "f * 10 = of_int (k - 10 * \<lfloor>r\<rfloor>)"
    using k by (simp add: f_def algebra_simps)
  have "(0::rat) \<le> of_int (k - 10 * \<lfloor>r\<rfloor>)" "of_int (k - 10 * \<lfloor>r\<rfloor>) < (10::rat)"
    using f0 f1 f10 by linarith+
  then have "0 \<le> k - 10 * \<lfloor>r\<rfloor>" "k - 10 * \<lfloor>r\<rfloor> < 10" by linarith+
  then have m: "k mod 10 = k - 10 * \<lfloor>r\<rfloor>"
    by (metis add.commute diff_add_cancel mod_mult_self2 mod_pos_pos_trivial mult.commute)
  have fd: "frac_digits 17 f = [''0123456789'' ! nat (k mod 10)]"
    using frac_digits_tenth [OF f10 fne] by (simp add: m)
  have lab: "used_label used = str_float r"
    using PyFloat r0 rf by (simp add: used_label_def py_trunc_def)
  have "str_float r = str_nat (nat \<lfloor>r\<rfloor>) @ ''.'' @ frac_digits 17 f"
    using r0 fne by (simp add: str_float_def Let_def f_def)
  then show ?thesis
    using lab fd PyFloat by (simp add: k_def)
qed

text \<open>
  C9, as stated, fails: the non-negative, fractional value 3.25 renders as \<open>3.25\<close>, with
  two decimal digits, since a fractional value is printed by \<open>str(used)\<close> as it is.
\<close>

theorem used_label_two_decimals:
  "0 \<le> num_val (PyFloat (13 / 4)) \<and>
   num_val (PyFloat (13 / 4)) \<noteq> of_int \<lfloor>num_val (PyFloat (13 / 4))\<rfloor> \<and>
   used_label (PyFloat (13 / 4)) = ''3.25''"
  by code_simp

text \<open>
  C9, amended. For every non-negative \<open>used\<close> with at most one decimal digit, which is
  what the aggregator's \<open>round(used, 1)\<close> yields, the label is the integer without a
  decimal point when \<open>used\<close> is integral, and the integer part, a point and exactly one
  decimal digit when it is fractional; so the label has a decimal point exactly when
  \<open>used\<close> is fractional. 3.0 renders as \<open>3\<close> and 3.5 as \<open>3.5\<close>.
\<close>

theorem used_label_one_decimal:
  "(0 \<le> num_val used \<and> one_decimal used \<longrightarrow>
      (num_val used = of_int \<lfloor>num_val used\<rfloor> \<longrightarrow>
         used_label used = str_nat (nat \<lfloor>num_val used\<rfloor>) \<and>
         CHR ''.'' \<notin> set (used_label used)) \<and>
      (num_val used \<noteq> of_int \<lfloor>num_val used\<rfloor> \<longrightarrow>
         used_label used =
           str_nat (nat \<lfloor>num_val used\<rfloor>) @ ''.'' @
           [''0123456789'' ! nat (\<lfloor>num_val used * 10\<rfloor> mod 10)] \<and>
         CHR ''.'' \<notin> set (str_nat (nat \<lfloor>num_val used\<rfloor>)) \<and>
         CHR ''.'' \<in> set (used_label used))) \<and>
   one_decimal (py_round1 x) \<and>
   used_label (PyFloat 3) = ''3'' \<and> used_label (PyFloat (7 / 2)) = ''3.5''"
proof -
  have a: "used_label (PyFloat 3) = ''3''" by code_simp
  have b: "used_label (PyFloat (7 / 2)) = ''3.5''" by code_simp
  have i: "0 \<le> num_val used \<Longrightarrow> num_val used = of_int \<lfloor>num_val used\<rfloor> \<Longrightarrow>
      used_label used = str_nat (nat \<lfloor>num_val used\<rfloor>) \<and> CHR ''.'' \<notin> set (used_label used)"
    using used_label_integral [of used] str_nat_no_point [of "nat \<lfloor>num_val used\<rfloor>"] by simp
  have f: "0 \<le> num_val used \<Longrightarrow> one_decimal used \<Longrightarrow>
      num_val used \<noteq> of_int \<lfloor>num_val used\<rfloor> \<Longrightarrow>
      used_label used =
           str_nat (nat \<lfloor>num_val used\<rfloor>) @ ''.'' @
           [''0123456789'' ! nat (\<lfloor>num_val used * 10\<rfloor> mod 10)] \<and>
         CHR ''.'' \<notin> set (str_nat (nat \<lfloor>num_val used\<rfloor>)) \<and>
         CHR ''.'' \<in> set (used_label used)"
    using used_label_fractional [of used] str_nat_no_point [of "nat \<lfloor>num_val used\<rfloor>"] by simp
  show ?thesis
    using a b i f one_decimal_round1 [of x] by blast
qed

theorem used_label_one_decimal_witness:
  "0 \<le> num_val (PyFloat (7 / 2)) \<and> one_decimal (PyFloat (7 / 2)) \<and>
   used_label (PyFloat (7 / 2)) = ''3.5'' \<and>
   0 \<le> num_val (PyInt 12) \<and> one_decimal (PyInt 12) \<and> used_label (PyInt 12) = ''12''"
proof -
  have h1: "0 \<le> num_val (PyFloat (7 / 2)) \<and> one_decimal (PyFloat (7 / 2))" by code_simp
  have h2: "0 \<le> num_val (PyInt 12) \<and> one_decimal (PyInt 12)" by code_simp
  have e1: "num_val (PyFloat (7 / 2)) \<noteq> of_int \<lfloor>num_val (PyFloat (7 / 2))\<rfloor>" by code_simp
  have e2: "num_val (PyInt 12) = of_int \<lfloor>num_val (PyInt 12)\<rfloor>" by simp
  have v1: "str_nat (nat \<lfloor>num_val (PyFloat (7 / 2))\<rfloor>) @ ''.'' @
           [''0123456789'' ! nat (\<lfloor>num_val (PyFloat (7 / 2)) * 10\<rfloor> mod 10)] = ''3.5''"
    by code_simp
  have v2: "str_nat (nat \<lfloor>num_val (PyInt 12)\<rfloor>) = ''12''" by code_simp
  show ?thesis
    using used_label_one_decimal [of "PyFloat (7 / 2)"] used_label_one_decimal [of "PyInt 12"]
      h1 h2 e1 e2 v1 v2
    by simp
qed

end
